theory Spec2Isabelle
  imports Complex_Main "HOL-Library.Sublist"
begin

section \<open>The popup (popup.js)\<close>

subsection \<open>Restricted pages\<close>

text \<open>
  A JavaScript string is modelled as a \<^typ>\<open>string\<close>; \<open>url.startsWith(scheme)\<close> is
  \<^const>\<open>prefix\<close> with the scheme first. A tab's \<open>url\<close> is \<open>undefined\<close> when the
  extension may not read it: \<open>None\<close>.
\<close>

definition restrictedSchemes :: "string list" where
  "restrictedSchemes =
     [''chrome://'', ''chrome-extension://'', ''brave://'',
      ''edge://'', ''opera://'', ''about:'', ''view-source:'', ''file://'']"

definition startsWith :: "string \<Rightarrow> string \<Rightarrow> bool" where
  "startsWith url scheme = prefix scheme url"

fun isCapturableUrl :: "string option \<Rightarrow> bool" where
  "isCapturableUrl None = False"
| "isCapturableUrl (Some url) =
     (if url = [] then False
      else \<not> list_ex (\<lambda>scheme. startsWith url scheme) restrictedSchemes)"

subsection \<open>The popup's elements\<close>

text \<open>
  The elements that \<open>initializePopup\<close> looks up by id, with the properties the script
  writes. A \<open>classList\<close> is the list of its tokens; assigning \<open>className\<close> replaces it.
  The model takes every element to exist, so the guard \<open>if (jiraCenterCaptureBtn)\<close> of
  \<open>showCaptureStatus\<close> is always taken.
\<close>

record popup =
  captureBtn_disabled :: bool
  regionCaptureBtn_disabled :: bool
  jiraCenterCaptureBtn_disabled :: bool
  statusDiv_classList :: "string list"
  statusMessage_textContent :: string
  errorMessage_classList :: "string list"
  errorMessage_textContent :: string
  restrictedPageMessage_classList :: "string list"

definition classList_add :: "string \<Rightarrow> string list \<Rightarrow> string list" where
  "classList_add tok cs = (if tok \<in> set cs then cs else cs @ [tok])"

definition classList_remove :: "string \<Rightarrow> string list \<Rightarrow> string list" where
  "classList_remove tok cs = filter (\<lambda>c. c \<noteq> tok) cs"

record tab =
  tab_url :: "string option"

text \<open>
  \<open>chrome.tabs.query\<close> either rejects (\<open>Inl\<close>, caught and logged by the \<open>try\<close>) or
  gives the list of matching tabs.
\<close>

fun checkCurrentTabUrl :: "string + tab list \<Rightarrow> popup \<Rightarrow> popup" where
  "checkCurrentTabUrl (Inl e) ui = ui"
| "checkCurrentTabUrl (Inr []) ui = ui"
| "checkCurrentTabUrl (Inr (t # ts)) ui =
     (if \<not> isCapturableUrl (tab_url t)
      then ui\<lparr>captureBtn_disabled := True,
              restrictedPageMessage_classList :=
                classList_add ''show'' (restrictedPageMessage_classList ui)\<rparr>
      else ui)"

subsection \<open>Status display\<close>

text \<open>
  The \<open>progress\<close> argument of \<open>showCaptureStatus\<close> is \<open>undefined\<close>, \<open>null\<close> or a
  number; the orchestrator reports whole percentages, so a number is an \<^typ>\<open>int\<close>,
  and the template literal prints it in decimal.
\<close>

datatype progress = Undefined | Null | Num int

definition digit_char :: "nat \<Rightarrow> char" where
  "digit_char d = ''0123456789'' ! d"

fun string_of_nat :: "nat \<Rightarrow> string" where
  "string_of_nat n =
     (if n < 10 then [digit_char n]
      else string_of_nat (n div 10) @ [digit_char (n mod 10)])"

definition string_of_int :: "int \<Rightarrow> string" where
  "string_of_int i =
     (if i < 0 then CHR ''-'' # string_of_nat (nat (- i)) else string_of_nat (nat i))"

fun string_of_progress :: "progress \<Rightarrow> string" where
  "string_of_progress Undefined = ''undefined''"
| "string_of_progress Null = ''null''"
| "string_of_progress (Num n) = string_of_int n"

text \<open>
  \<open>statusTextMap\<close> is an object literal, so \<open>statusTextMap[status]\<close> finds its own eight
  keys first and then the members that every object inherits (\<open>constructor\<close>,
  \<open>toString\<close>, ...). The parameter \<open>inherited\<close> gives the text such a member is shown as,
  \<open>None\<close> for a name that is not inherited; every inherited member is truthy. A status
  that is \<open>undefined\<close> is looked up under the key \<open>undefined\<close>.
\<close>

definition statusTextMap :: "(string \<times> string) list" where
  "statusTextMap =
     [(''started'', ''Starting capture...''),
      (''preparing'', ''Preparing page...''),
      (''stabilizing'', ''Expanding content...''),
      (''capturing'', ''Capturing viewports...''),
      (''stitching'', ''Stitching images...''),
      (''downloading'', ''Downloading...''),
      (''completed'', ''Capture complete!''),
      (''error'', ''Error occurred'')]"

definition property_key :: "string option \<Rightarrow> string" where
  "property_key status = (case status of None \<Rightarrow> ''undefined'' | Some s \<Rightarrow> s)"

definition statusTextMap_get :: "(string \<Rightarrow> string option) \<Rightarrow> string option \<Rightarrow> string option" where
  "statusTextMap_get inherited status =
     (case map_of statusTextMap (property_key status) of
        Some t \<Rightarrow> Some t
      | None \<Rightarrow> inherited (property_key status))"

definition showCaptureStatus ::
  "(string \<Rightarrow> string option) \<Rightarrow> string option \<Rightarrow> string option \<Rightarrow> progress \<Rightarrow> popup \<Rightarrow> popup" where
  "showCaptureStatus inherited status message progress ui =
     (let ui1 = ui\<lparr>statusDiv_classList := classList_add ''show'' (statusDiv_classList ui)\<rparr>;
          statusText0 = (case message of None \<Rightarrow> [] | Some m \<Rightarrow> m);
          statusText1 =
            (if statusText0 = []
             then (case statusTextMap_get inherited status of
                     None \<Rightarrow> ''Processing...''
                   | Some t \<Rightarrow> t)
             else statusText0);
          statusText =
            (if progress \<noteq> Null \<and> progress \<noteq> Undefined \<and> status = Some ''capturing''
             then statusText1 @ '' ('' @ string_of_progress progress @ ''%)''
             else statusText1);
          ui2 = ui1\<lparr>statusMessage_textContent := statusText\<rparr>
      in if status = Some ''completed''
         then ui2\<lparr>statusDiv_classList := [''status'', ''show'', ''success''],
                  captureBtn_disabled := False,
                  regionCaptureBtn_disabled := False,
                  jiraCenterCaptureBtn_disabled := False\<rparr>
         else if status = Some ''error''
         then ui2\<lparr>statusDiv_classList := [''status'', ''show'', ''error''],
                  captureBtn_disabled := False,
                  regionCaptureBtn_disabled := False,
                  jiraCenterCaptureBtn_disabled := False\<rparr>
         else ui2\<lparr>statusDiv_classList := [''status'', ''show'', ''info'']\<rparr>)"

text \<open>
  A message from the orchestrator; \<open>handleStatusMessage\<close> ignores every kind but
  \<open>CAPTURE_STATUS\<close>.
\<close>

record status_message =
  sm_type :: string
  sm_status :: "string option"
  sm_message :: "string option"
  sm_progress :: progress

definition handleStatusMessage ::
  "(string \<Rightarrow> string option) \<Rightarrow> status_message \<Rightarrow> popup \<Rightarrow> popup" where
  "handleStatusMessage inherited message ui =
     (if sm_type message \<noteq> ''CAPTURE_STATUS'' then ui
      else showCaptureStatus inherited (sm_status message) (sm_message message)
             (sm_progress message) ui)"

subsection \<open>The stored capture state\<close>

text \<open>
  The reply to \<open>GET_CAPTURE_STATUS\<close>: no reply at all, a reply without \<open>captureState\<close>,
  or the stored record. \<open>state.timestamp || 0\<close> reads a missing timestamp (and 0) as 0.
  \<open>now\<close> is \<open>Date.now()\<close>, in milliseconds.
\<close>

record captureState =
  cs_status :: "string option"
  cs_message :: "string option"
  cs_progress :: progress
  cs_timestamp :: "int option"

record status_response =
  sr_captureState :: "captureState option"

definition state_age :: "int \<Rightarrow> captureState \<Rightarrow> int" where
  "state_age now state = now - (case cs_timestamp state of None \<Rightarrow> 0 | Some t \<Rightarrow> t)"

definition checkActiveCaptureState ::
  "(string \<Rightarrow> string option) \<Rightarrow> int \<Rightarrow> status_response option \<Rightarrow> popup \<Rightarrow> popup" where
  "checkActiveCaptureState inherited now response ui =
     (case response of
        None \<Rightarrow> ui
      | Some r \<Rightarrow>
          (case sr_captureState r of
             None \<Rightarrow> ui
           | Some state \<Rightarrow>
               (let age = state_age now state
                in if age < 60000 \<and> cs_status state \<noteq> Some ''completed''
                      \<and> cs_status state \<noteq> Some ''error''
                   then (showCaptureStatus inherited (cs_status state) (cs_message state)
                           (cs_progress state) ui)\<lparr>captureBtn_disabled := True\<rparr>
                   else if cs_status state = Some ''completed'' \<and> age < 5000
                   then showCaptureStatus inherited (cs_status state) (cs_message state)
                          (Num 100) ui
                   else ui)))"

subsection \<open>Starting the Jira center capture\<close>

text \<open>
  \<open>chrome.runtime.sendMessage\<close> calls back with \<open>lastError\<close> set, with no response, or
  with the orchestrator's response. \<open>success\<close> is the truthiness of the response's field.
  The parameter \<open>runtime\<close> is the extension runtime answering a message; the handler
  returns the messages it sent and the popup it leaves. Every failure is thrown inside
  the \<open>try\<close> and handled by its \<open>catch\<close> block.
\<close>

record start_response =
  success :: bool
  error :: "string option"
  sessionId :: "string option"

datatype send_result = LastError string | NoResponse | Response start_response

record request =
  req_type :: string
  req_has_config :: bool

definition or_default :: "string option \<Rightarrow> string \<Rightarrow> string" where
  "or_default v d = (case v of None \<Rightarrow> d | Some s \<Rightarrow> if s = [] then d else s)"

definition handleJiraCenterCapture_catch :: "string \<Rightarrow> popup \<Rightarrow> popup" where
  "handleJiraCenterCapture_catch error_message ui =
     ui\<lparr>statusDiv_classList := [''status'', ''show'', ''error''],
        statusMessage_textContent := ''Capture failed!'',
        errorMessage_classList := classList_add ''show'' (errorMessage_classList ui),
        errorMessage_textContent := error_message,
        jiraCenterCaptureBtn_disabled := False,
        captureBtn_disabled := False,
        regionCaptureBtn_disabled := False\<rparr>"

definition handleJiraCenterCapture ::
  "(request \<Rightarrow> send_result) \<Rightarrow> popup \<Rightarrow> request list \<times> popup" where
  "handleJiraCenterCapture runtime ui =
     (let ui1 = ui\<lparr>errorMessage_classList := classList_remove ''show'' (errorMessage_classList ui),
                   errorMessage_textContent := [],
                   jiraCenterCaptureBtn_disabled := True,
                   captureBtn_disabled := True,
                   regionCaptureBtn_disabled := True,
                   statusMessage_textContent := ''Starting Jira center capture...'',
                   statusDiv_classList := [''status'', ''show'', ''info'']\<rparr>;
          sent = \<lparr>req_type = ''START_JIRA_CENTER_CAPTURE'', req_has_config = False\<rparr>
      in ([sent],
          (case runtime sent of
             LastError m \<Rightarrow> handleJiraCenterCapture_catch m ui1
           | NoResponse \<Rightarrow> handleJiraCenterCapture_catch ''No response from background'' ui1
           | Response r \<Rightarrow>
               if \<not> success r
               then handleJiraCenterCapture_catch (or_default (error r) ''Jira center capture failed'') ui1
               else ui1)))"

section \<open>The Jira site handler\<close>

subsection \<open>The page\<close>

text \<open>
  An element as the handler reads it: its tag, attributes and class tokens (what the
  selectors test), its computed \<open>overflow-y\<close>, its integer layout metrics and the
  rectangle \<open>getBoundingClientRect\<close> reports. Rectangle coordinates are modelled as
  reals. A page is its elements in document order, its location, and the two globals
  \<open>detect\<close> probes.
\<close>

record dom_rect =
  rect_left :: real
  rect_right :: real
  rect_top :: real
  rect_width :: real

record element =
  el_tag :: string
  el_attrs :: "(string \<times> string) list"
  el_classes :: "string list"
  overflowY :: string
  scrollHeight :: int
  clientHeight :: int
  offsetWidth :: int
  offsetHeight :: int
  boundingClientRect :: dom_rect

text \<open>
  \<open>window.AJS?.Meta?.get('issue-key')\<close> either evaluates to a value, of which only the
  truthiness is used (\<open>undefined\<close> when \<open>AJS\<close> or \<open>Meta\<close> is missing), or throws, when
  \<open>Meta\<close> has no callable \<open>get\<close>.
\<close>

datatype probe = Probe_value bool | Probe_throws

datatype js_error = TypeError

record page =
  hostname :: string
  pathname :: string
  elements :: "element list"
  window_JIRA :: bool
  window_AJS_issue_key :: probe

subsection \<open>Selectors\<close>

text \<open>
  The compound selectors the handler uses: an optional tag, class tokens, and attribute
  tests \<open>[a="v"]\<close> and \<open>[a*="v"]\<close>. \<open>*\<close> is the selector with no test.
\<close>

datatype attr_test = Attr_equals string string | Attr_contains string string

record selector =
  sel_tag :: "string option"
  sel_classes :: "string list"
  sel_attrs :: "attr_test list"

fun attr_holds :: "element \<Rightarrow> attr_test \<Rightarrow> bool" where
  "attr_holds el (Attr_equals a v) = (map_of (el_attrs el) a = Some v)"
| "attr_holds el (Attr_contains a v) =
     (case map_of (el_attrs el) a of
        None \<Rightarrow> False
      | Some w \<Rightarrow> v \<noteq> [] \<and> sublist v w)"

definition matches :: "selector \<Rightarrow> element \<Rightarrow> bool" where
  "matches sel el =
     ((case sel_tag sel of None \<Rightarrow> True | Some t \<Rightarrow> el_tag el = t)
      \<and> list_all (\<lambda>c. c \<in> set (el_classes el)) (sel_classes sel)
      \<and> list_all (attr_holds el) (sel_attrs sel))"

definition querySelectorAll :: "page \<Rightarrow> selector \<Rightarrow> element list" where
  "querySelectorAll p sel = filter (matches sel) (elements p)"

definition querySelector :: "page \<Rightarrow> selector \<Rightarrow> element option" where
  "querySelector p sel = find (matches sel) (elements p)"

definition getElementById :: "page \<Rightarrow> string \<Rightarrow> element option" where
  "getElementById p i = find (\<lambda>el. map_of (el_attrs el) ''id'' = Some i) (elements p)"

definition by_class :: "string \<Rightarrow> selector" where
  "by_class c = \<lparr>sel_tag = None, sel_classes = [c], sel_attrs = []\<rparr>"

definition by_attr :: "string \<Rightarrow> string \<Rightarrow> selector" where
  "by_attr a v = \<lparr>sel_tag = None, sel_classes = [], sel_attrs = [Attr_equals a v]\<rparr>"

definition universal :: selector where
  "universal = \<lparr>sel_tag = None, sel_classes = [], sel_attrs = []\<rparr>"

definition meta_application_name :: "string \<Rightarrow> selector" where
  "meta_application_name v =
     \<lparr>sel_tag = Some ''meta'', sel_classes = [],
      sel_attrs = [Attr_equals ''name'' ''application-name'', Attr_contains ''content'' v]\<rparr>"

subsection \<open>detect\<close>

text \<open>
  The pattern \<open>/\/browse\/[A-Z]+-\d+/\<close> is searched anywhere in the path: after
  \<open>/browse/\<close> come one or more capitals, a hyphen and a digit.
\<close>

definition is_capital :: "char \<Rightarrow> bool" where
  "is_capital c = (65 \<le> (of_char c :: nat) \<and> (of_char c :: nat) \<le> 90)"

definition is_digit :: "char \<Rightarrow> bool" where
  "is_digit c = (48 \<le> (of_char c :: nat) \<and> (of_char c :: nat) \<le> 57)"

definition issue_key_here :: "string \<Rightarrow> bool" where
  "issue_key_here s =
     (prefix ''/browse/'' s \<and>
      (let r = drop 8 s; letters = takeWhile is_capital r; t = dropWhile is_capital r
       in letters \<noteq> [] \<and>
          (case t of
             c # d # _ \<Rightarrow> c = CHR ''-'' \<and> is_digit d
           | _ \<Rightarrow> False)))"

fun match_issue_key :: "string \<Rightarrow> bool" where
  "match_issue_key [] = False"
| "match_issue_key (c # s) = (issue_key_here (c # s) \<or> match_issue_key s)"

definition endsWith :: "string \<Rightarrow> string \<Rightarrow> bool" where
  "endsWith s e = suffix e s"

record detection =
  det_type :: "string option"
  detected :: bool

definition isJiraCloud :: "page \<Rightarrow> bool" where
  "isJiraCloud p = (endsWith (hostname p) ''.atlassian.net'' \<and> match_issue_key (pathname p))"

definition isJiraServer :: "page \<Rightarrow> bool" where
  "isJiraServer p =
     (getElementById p ''issue-content'' \<noteq> None
      \<and> querySelector p (by_class ''issue-view'') \<noteq> None
      \<and> querySelector p (by_class ''aui-page-panel'') \<noteq> None)"

definition hasJiraMeta :: "page \<Rightarrow> js_error + bool" where
  "hasJiraMeta p =
     (if querySelector p (meta_application_name ''JIRA'') \<noteq> None then Inr True
      else if querySelector p (meta_application_name ''Jira'') \<noteq> None then Inr True
      else if window_JIRA p then Inr True
      else (case window_AJS_issue_key p of
              Probe_value b \<Rightarrow> Inr b
            | Probe_throws \<Rightarrow> Inl TypeError))"

definition detect :: "page \<Rightarrow> js_error + detection" where
  "detect p =
     (if isJiraCloud p then Inr \<lparr>det_type = Some ''jira-cloud'', detected = True\<rparr>
      else if isJiraServer p then Inr \<lparr>det_type = Some ''jira-server'', detected = True\<rparr>
      else (case hasJiraMeta p of
              Inl e \<Rightarrow> Inl e
            | Inr True \<Rightarrow> Inr \<lparr>det_type = Some ''jira-unknown'', detected = True\<rparr>
            | Inr False \<Rightarrow> Inr \<lparr>det_type = None, detected = False\<rparr>))"

subsection \<open>Scroll containers\<close>

record container =
  c_element :: element
  c_type :: string
  c_scrollHeight :: int
  c_clientHeight :: int

definition hasOverflow :: "element \<Rightarrow> bool" where
  "hasOverflow el = (overflowY el = ''auto'' \<or> overflowY el = ''scroll'')"

definition container_of :: "string \<Rightarrow> element \<Rightarrow> container" where
  "container_of ty el =
     \<lparr>c_element = el, c_type = ty,
      c_scrollHeight = scrollHeight el, c_clientHeight = clientHeight el\<rparr>"

definition findServerScrollContainer :: "page \<Rightarrow> container option" where
  "findServerScrollContainer p =
     (case querySelector p (by_class ''issue-view'') of
        None \<Rightarrow> None
      | Some issueView \<Rightarrow>
          (let canScroll = scrollHeight issueView > clientHeight issueView + 10
           in if hasOverflow issueView \<and> canScroll
              then Some (container_of ''jira-server'' issueView)
              else None))"

text \<open>
  The fallback loop over all elements, with its two variables \<open>bestMatch\<close> and
  \<open>bestScrollHeight\<close>.
\<close>

fun largest_loop :: "element list \<Rightarrow> element option \<Rightarrow> int \<Rightarrow> element option" where
  "largest_loop [] bestMatch bestScrollHeight = bestMatch"
| "largest_loop (el # els) bestMatch bestScrollHeight =
     (if offsetWidth el < 200 \<or> offsetHeight el < 200
      then largest_loop els bestMatch bestScrollHeight
      else (let canScroll = scrollHeight el > clientHeight el + 50
            in if hasOverflow el \<and> canScroll \<and> scrollHeight el > bestScrollHeight
               then largest_loop els (Some el) (scrollHeight el)
               else largest_loop els bestMatch bestScrollHeight))"

definition findLargestScrollableElement :: "page \<Rightarrow> container option" where
  "findLargestScrollableElement p =
     (case largest_loop (querySelectorAll p universal) None 0 of
        Some bestMatch \<Rightarrow> Some (container_of ''jira-fallback'' bestMatch)
      | None \<Rightarrow> None)"

definition cloud_selectors :: "selector list" where
  "cloud_selectors =
     [by_attr ''data-testid'' ''issue.views.issue-base.foundation.issue-panel'',
      by_attr ''data-testid'' ''issue-view-scrollable-container'',
      by_attr ''data-testid'' ''issue.views.issue-base.foundation.content'',
      \<lparr>sel_tag = None, sel_classes = [''css-1dbjc4n''],
       sel_attrs = [Attr_contains ''style'' ''overflow'']\<rparr>,
      by_attr ''role'' ''main'']"

text \<open>The inner and the outer loop of \<open>findCloudScrollContainer\<close>; each returns at the
  first element that passes.\<close>

fun cloud_elements_loop :: "element list \<Rightarrow> container option" where
  "cloud_elements_loop [] = None"
| "cloud_elements_loop (el # els) =
     (let canScroll = scrollHeight el > clientHeight el + 10
      in if hasOverflow el \<and> canScroll
         then Some (container_of ''jira-cloud'' el)
         else cloud_elements_loop els)"

fun cloud_selectors_loop :: "page \<Rightarrow> selector list \<Rightarrow> container option" where
  "cloud_selectors_loop p [] = None"
| "cloud_selectors_loop p (sel # sels) =
     (case cloud_elements_loop (querySelectorAll p sel) of
        Some c \<Rightarrow> Some c
      | None \<Rightarrow> cloud_selectors_loop p sels)"

definition findCloudScrollContainer :: "page \<Rightarrow> container option" where
  "findCloudScrollContainer p =
     (case cloud_selectors_loop p cloud_selectors of
        Some c \<Rightarrow> Some c
      | None \<Rightarrow> findLargestScrollableElement p)"

definition findScrollContainer :: "page \<Rightarrow> js_error + container option" where
  "findScrollContainer p =
     (case detect p of
        Inl e \<Rightarrow> Inl e
      | Inr detection \<Rightarrow>
          if \<not> detected detection then Inr None
          else if det_type detection = Some ''jira-server''
          then Inr (findServerScrollContainer p)
          else if det_type detection = Some ''jira-cloud''
          then Inr (findCloudScrollContainer p)
          else (case findServerScrollContainer p of
                  Some c \<Rightarrow> Inr (Some c)
                | None \<Rightarrow> Inr (findCloudScrollContainer p)))"

subsection \<open>Center bounds\<close>

text \<open>\<open>Math.round\<close> rounds to the nearest integer, a half upwards.\<close>

definition Math_round :: "real \<Rightarrow> int" where
  "Math_round x = \<lfloor>x + 1 / 2\<rfloor>"

record bounds =
  b_left :: int
  b_right :: int
  b_top :: int
  b_width :: int
  b_scrollHeight :: int
  b_clientHeight :: int

definition getServerCenterBounds :: "page \<Rightarrow> bounds option" where
  "getServerCenterBounds p =
     (let leftSidebar = querySelector p (by_class ''aui-sidebar'');
          rightSidebar = getElementById p ''viewissuesidebar''
      in case querySelector p (by_class ''issue-view'') of
           None \<Rightarrow> None
         | Some issueView \<Rightarrow>
             (let viewRect = boundingClientRect issueView;
                  leftBound = (case leftSidebar of
                                 Some l \<Rightarrow> rect_right (boundingClientRect l)
                               | None \<Rightarrow> 0);
                  rightBound = (case rightSidebar of
                                  Some r \<Rightarrow> rect_left (boundingClientRect r)
                                | None \<Rightarrow> rect_right viewRect)
              in Some \<lparr>b_left = Math_round leftBound,
                       b_right = Math_round rightBound,
                       b_top = Math_round (rect_top viewRect),
                       b_width = Math_round (rightBound - leftBound),
                       b_scrollHeight = scrollHeight issueView,
                       b_clientHeight = clientHeight issueView\<rparr>))"

definition getCloudCenterBounds :: "page \<Rightarrow> bounds option" where
  "getCloudCenterBounds p =
     (let mainContent =
            (case querySelector p
                    (by_attr ''data-testid'' ''issue.views.issue-base.foundation.content'') of
               Some m \<Rightarrow> Some m
             | None \<Rightarrow> querySelector p (by_attr ''role'' ''main''))
      in case mainContent of
           None \<Rightarrow> None
         | Some m \<Rightarrow>
             (let rect = boundingClientRect m
              in Some \<lparr>b_left = Math_round (rect_left rect),
                       b_right = Math_round (rect_right rect),
                       b_top = Math_round (rect_top rect),
                       b_width = Math_round (rect_width rect),
                       b_scrollHeight = scrollHeight m,
                       b_clientHeight = clientHeight m\<rparr>))"

definition getCenterBounds :: "page \<Rightarrow> js_error + bounds option" where
  "getCenterBounds p =
     (case detect p of
        Inl e \<Rightarrow> Inl e
      | Inr detection \<Rightarrow>
          if det_type detection = Some ''jira-server'' then Inr (getServerCenterBounds p)
          else if det_type detection = Some ''jira-cloud'' then Inr (getCloudCenterBounds p)
          else Inr None)"

section \<open>The capture core\<close>

text \<open>
  The session orchestrator and the stitching engine live in \<open>background.js\<close> and
  \<open>offscreen.js\<close>, which the popup calls through its messages. The definitions of this
  section follow the specification of these two components.
\<close>

subsection \<open>Capture sessions\<close>

text \<open>Modelled from the spec: the states of the session orchestrator's state machine
  (\<open>background.js\<close>), \<open>idle\<close> initial, \<open>completed\<close> and \<open>error\<close> terminal.\<close>

datatype session_status =
  Idle | Preparing | Stabilizing | Capturing | Stitching | Finalizing | Completed | Error

text \<open>Modelled from the spec: the CaptureSession record kept by the orchestrator
  (\<open>background.js\<close>), reduced to its identifier, its requesting tab and its status.\<close>

record CaptureSession =
  session_id :: string
  session_tab :: nat
  session_status :: session_status

text \<open>Modelled from the spec: a session of the orchestrator (\<open>background.js\<close>) is Active
  from its creation until it reaches a terminal state.\<close>

definition is_active :: "CaptureSession \<Rightarrow> bool" where
  "is_active s = (session_status s \<noteq> Completed \<and> session_status s \<noteq> Error)"

text \<open>Modelled from the spec: the transitions of the orchestrator's state machine
  (\<open>background.js\<close>): the chain from \<open>idle\<close> to \<open>completed\<close>, in which \<open>stabilizing\<close> is
  optional, and \<open>error\<close> from every non-terminal state.\<close>

definition allowed :: "session_status \<Rightarrow> session_status \<Rightarrow> bool" where
  "allowed s t =
     ((s = Idle \<and> t = Preparing)
      \<or> (s = Preparing \<and> t = Stabilizing)
      \<or> (s = Preparing \<and> t = Capturing)
      \<or> (s = Stabilizing \<and> t = Capturing)
      \<or> (s = Capturing \<and> t = Stitching)
      \<or> (s = Stitching \<and> t = Finalizing)
      \<or> (s = Finalizing \<and> t = Completed)
      \<or> (t = Error \<and> s \<noteq> Completed \<and> s \<noteq> Error))"

text \<open>Modelled from the spec: what reaches the orchestrator (\<open>background.js\<close>): a
  \<open>START_CAPTURE\<close> request of a tab, with the identifier drawn for the new session, and
  the orchestrator's own moves of a session to a next state (cancellation is the move to
  \<open>error\<close>).\<close>

datatype event = START_CAPTURE nat string | Transition string session_status

text \<open>Modelled from the spec: the orchestrator's answer (\<open>background.js\<close>): the
  session identifier of a started capture, a rejection with its error message, or the
  note that a move was handled.\<close>

datatype reply = Started string | Rejected string | Moved

text \<open>Modelled from the spec: the orchestrator's handling of one event
  (\<open>background.js\<close>). A start request for a tab with an Active session is rejected and
  changes nothing; otherwise a session is created. A move applies where the state
  machine allows it.\<close>

fun orchestrator_step :: "event \<Rightarrow> CaptureSession list \<Rightarrow> reply \<times> CaptureSession list" where
  "orchestrator_step (START_CAPTURE requesting_tab sid) sessions =
     (if list_ex (\<lambda>s. session_tab s = requesting_tab \<and> is_active s) sessions
      then (Rejected ''capture already active'', sessions)
      else (Started sid,
            sessions @ [\<lparr>session_id = sid, session_tab = requesting_tab,
                         session_status = Idle\<rparr>]))"
| "orchestrator_step (Transition sid st) sessions =
     (Moved,
      map (\<lambda>s. if session_id s = sid \<and> allowed (session_status s) st
                then s\<lparr>session_status := st\<rparr> else s) sessions)"

text \<open>Modelled from the spec: the orchestrator (\<open>background.js\<close>) handling a sequence of
  events, starting with the sessions it has.\<close>

fun orchestrator_run :: "event list \<Rightarrow> CaptureSession list \<Rightarrow> CaptureSession list" where
  "orchestrator_run [] sessions = sessions"
| "orchestrator_run (ev # evs) sessions =
     orchestrator_run evs (snd (orchestrator_step ev sessions))"

text \<open>Modelled from the spec: the Active sessions of one requesting tab, among the
  orchestrator's sessions (\<open>background.js\<close>).\<close>

definition active_sessions :: "nat \<Rightarrow> CaptureSession list \<Rightarrow> CaptureSession list" where
  "active_sessions requesting_tab sessions =
     filter (\<lambda>s. session_tab s = requesting_tab \<and> is_active s) sessions"

text \<open>Modelled from the spec: the orchestrator (\<open>background.js\<close>) answering a request
  that the popup of a tab sends through the runtime. Each start kind, the site-specific
  center capture under the name the popup gives it, is handled as a start request of
  that tab and answered with the identifier of the started session, or with the error
  of the rejection. Requests of other kinds are left out: they get no response here.\<close>

definition orchestrator_runtime ::
  "nat \<Rightarrow> string \<Rightarrow> CaptureSession list \<Rightarrow> request \<Rightarrow> send_result" where
  "orchestrator_runtime requesting_tab sid sessions req =
     (if req_type req \<in> set [''START_CAPTURE'', ''START_REGION_CAPTURE'',
                                 ''START_JIRA_CENTER_CAPTURE'']
      then (case fst (orchestrator_step (START_CAPTURE requesting_tab sid) sessions) of
              Started new_id \<Rightarrow>
                Response \<lparr>success = True, error = None, sessionId = Some new_id\<rparr>
            | Rejected e \<Rightarrow>
                Response \<lparr>success = False, error = Some e, sessionId = None\<rparr>
            | Moved \<Rightarrow> NoResponse)
      else NoResponse)"

subsection \<open>The stitching engine\<close>

text \<open>Modelled from the spec: a ViewportFrame of the stitching engine (\<open>offscreen.js\<close>),
  reduced to the scroll offset it was taken at and its height in raster lines.\<close>

record ViewportFrame =
  frame_offset :: int
  frame_height :: int

text \<open>Modelled from the spec: the CompositeBuffer of the stitching engine
  (\<open>offscreen.js\<close>): current height, maximum allowed height, width, and the frame
  appended last, whose offset gives the overlap of the next.\<close>

record CompositeBuffer =
  cb_height :: int
  cb_ceiling :: int
  cb_width :: int
  cb_previous :: "ViewportFrame option"

text \<open>Modelled from the spec: the one error the stitching engine (\<open>offscreen.js\<close>)
  signals on an append.\<close>

datatype stitch_error = CapacityExceeded

text \<open>Modelled from the spec: \<open>beginSession\<close> of the stitching engine (\<open>offscreen.js\<close>),
  an empty composite under the given ceiling.\<close>

definition beginSession :: "int \<Rightarrow> int \<Rightarrow> CompositeBuffer" where
  "beginSession maxHeight expectedWidth =
     \<lparr>cb_height = 0, cb_ceiling = maxHeight, cb_width = expectedWidth, cb_previous = None\<rparr>"

text \<open>Modelled from the spec: the duplicate leading rows of a frame in the stitching
  engine (\<open>offscreen.js\<close>), as implied by its offset and the previous frame's offset and
  height; between none and the whole frame.\<close>

definition overlap_rows :: "CompositeBuffer \<Rightarrow> ViewportFrame \<Rightarrow> int" where
  "overlap_rows buf frame =
     (case cb_previous buf of
        None \<Rightarrow> 0
      | Some prev \<Rightarrow>
          max 0 (min (frame_height frame)
                     (frame_offset prev + frame_height prev - frame_offset frame)))"

text \<open>Modelled from the spec: \<open>appendFrame\<close> of the stitching engine (\<open>offscreen.js\<close>):
  the frame without its duplicate rows is appended, unless that would push the height
  past the ceiling; then the append is rejected with \<open>CapacityExceeded\<close> and the buffer
  is left as it was.\<close>

definition appendFrame ::
  "CompositeBuffer \<Rightarrow> ViewportFrame \<Rightarrow> stitch_error option \<times> CompositeBuffer" where
  "appendFrame buf frame =
     (let remainder = frame_height frame - overlap_rows buf frame
      in if cb_height buf + remainder > cb_ceiling buf
         then (Some CapacityExceeded, buf)
         else (None, buf\<lparr>cb_height := cb_height buf + remainder,
                         cb_previous := Some frame\<rparr>))"

text \<open>Modelled from the spec: \<open>finish\<close> of the stitching engine (\<open>offscreen.js\<close>); of the
  encoded output only the height is kept.\<close>

definition finish :: "CompositeBuffer \<Rightarrow> int" where
  "finish buf = cb_height buf"


subsection \<open>The scroll/capture loop\<close>

text \<open>Modelled from the spec: the ScrollGeometry the viewport driver reports
  (\<open>contentScript.js\<close>), for a page whose heights do not change during the capture.\<close>

record ScrollGeometry =
  sg_scrollHeight :: int
  sg_clientHeight :: int

text \<open>Modelled from the spec: \<open>scrollTo\<close> of the viewport driver (\<open>contentScript.js\<close>),
  giving the offset the surface reached: the request, capped to the end of content.\<close>

definition scrollTo :: "ScrollGeometry \<Rightarrow> int \<Rightarrow> int" where
  "scrollTo g offset = max 0 (min offset (sg_scrollHeight g - sg_clientHeight g))"

text \<open>Modelled from the spec: how the scroll/capture loop of the orchestrator
  (\<open>background.js\<close>) ends: at the end of content, truncated at the ceiling, or at the
  maximum number of capture attempts.\<close>

datatype capture_signal = CaptureComplete | CaptureTruncated | AttemptLimit

text \<open>Modelled from the spec: what the scroll/capture loop of the orchestrator
  (\<open>background.js\<close>) has gathered: the offsets it asked for and the offsets the surface
  reached, one each per captured frame, and the composite.\<close>

record capture_progress =
  requested_offsets :: "int list"
  settled_offsets :: "int list"
  composite :: CompositeBuffer

text \<open>Modelled from the spec: what the orchestrator (\<open>background.js\<close>) keeps of a
  frame that the engine rejected, for the partial result that ends exactly at the
  ceiling: the frame's leading rows, its duplicate rows and as many more as the ceiling
  leaves room for.\<close>

definition crop_to_room :: "CompositeBuffer \<Rightarrow> ViewportFrame \<Rightarrow> ViewportFrame" where
  "crop_to_room buf frame =
     frame\<lparr>frame_height := overlap_rows buf frame + (cb_ceiling buf - cb_height buf)\<rparr>"

text \<open>Modelled from the spec: the scroll/capture loop of the orchestrator
  (\<open>background.js\<close>). The first argument counts the capture attempts left. Each round
  scrolls to \<open>offset\<close>, stops when the settled offset no longer increases, captures the
  visible region and forwards it to the engine, and goes on a step of
  \<open>visible - overlap\<close> further. When the engine rejects the frame, the loop finishes
  with a partial result: it appends the part of the frame that still fits and stops
  truncated, with the composite exactly at the ceiling.\<close>

fun capture_loop ::
  "nat \<Rightarrow> ScrollGeometry \<Rightarrow> int \<Rightarrow> int \<Rightarrow> int option \<Rightarrow> capture_progress
     \<Rightarrow> capture_signal \<times> capture_progress" where
  "capture_loop 0 g overlap offset previous st = (AttemptLimit, st)"
| "capture_loop (Suc attempts) g overlap offset previous st =
     (let visible = sg_clientHeight g;
          settled = scrollTo g offset
      in if (case previous of None \<Rightarrow> False | Some before \<Rightarrow> settled \<le> before)
         then (CaptureComplete, st)
         else (case appendFrame (composite st)
                      \<lparr>frame_offset = settled, frame_height = visible\<rparr> of
                 (Some CapacityExceeded, buf) \<Rightarrow>
                   (CaptureTruncated,
                    st\<lparr>requested_offsets := requested_offsets st @ [offset],
                       settled_offsets := settled_offsets st @ [settled],
                       composite :=
                         snd (appendFrame buf
                                (crop_to_room buf
                                   \<lparr>frame_offset = settled, frame_height = visible\<rparr>))\<rparr>)
               | (None, buf) \<Rightarrow>
                   capture_loop attempts g overlap (offset + (visible - overlap)) (Some settled)
                     (st\<lparr>requested_offsets := requested_offsets st @ [offset],
                         settled_offsets := settled_offsets st @ [settled],
                         composite := buf\<rparr>)))"

text \<open>Modelled from the spec: a full-page capture by the orchestrator (\<open>background.js\<close>):
  a new composite, then the loop from offset 0.\<close>

definition startCapture ::
  "ScrollGeometry \<Rightarrow> int \<Rightarrow> int \<Rightarrow> nat \<Rightarrow> int \<Rightarrow> capture_signal \<times> capture_progress" where
  "startCapture g overlap maxHeight maxAttempts width =
     capture_loop maxAttempts g overlap 0 None
       \<lparr>requested_offsets = [], settled_offsets = [],
        composite = beginSession maxHeight width\<rparr>"

section \<open>Sample inputs\<close>

text \<open>A popup as it opens, a runtime whose orchestrator accepts every request, and an
  engine whose objects inherit nothing.\<close>

definition closed_popup :: popup where
  "closed_popup =
     \<lparr>captureBtn_disabled = False, regionCaptureBtn_disabled = False,
      jiraCenterCaptureBtn_disabled = False, statusDiv_classList = [''status''],
      statusMessage_textContent = [], errorMessage_classList = [''error-message''],
      errorMessage_textContent = [], restrictedPageMessage_classList = [''restricted'']\<rparr>"

definition accepting_runtime :: "request \<Rightarrow> send_result" where
  "accepting_runtime req =
     Response \<lparr>success = True, error = None, sessionId = Some ''k3x9q''\<rparr>"

definition no_inherited :: "string \<Rightarrow> string option" where
  "no_inherited name = None"

definition capturing_state :: captureState where
  "capturing_state =
     \<lparr>cs_status = Some ''capturing'', cs_message = None, cs_progress = Num 40,
      cs_timestamp = Some 1700000000000\<rparr>"

text \<open>A page that is not Jira, and a proxied Jira page that only the global \<open>JIRA\<close>
  gives away, with a scrollable \<open>.issue-view\<close>.\<close>

definition plain_div :: element where
  "plain_div =
     \<lparr>el_tag = ''div'', el_attrs = [], el_classes = [], overflowY = ''visible'',
      scrollHeight = 600, clientHeight = 600, offsetWidth = 1280, offsetHeight = 600,
      boundingClientRect =
        \<lparr>rect_left = 0, rect_right = 1280, rect_top = 0, rect_width = 1280\<rparr>\<rparr>"

definition issue_view_div :: element where
  "issue_view_div =
     \<lparr>el_tag = ''div'', el_attrs = [(''style'', ''height: 900px'')],
      el_classes = [''issue-view''], overflowY = ''auto'',
      scrollHeight = 3000, clientHeight = 900, offsetWidth = 1000, offsetHeight = 900,
      boundingClientRect =
        \<lparr>rect_left = 280, rect_right = 1280, rect_top = 41, rect_width = 1000\<rparr>\<rparr>"

definition plain_page :: page where
  "plain_page =
     \<lparr>hostname = ''example.com'', pathname = ''/index.html'', elements = [plain_div],
      window_JIRA = False, window_AJS_issue_key = Probe_value False\<rparr>"

definition unknown_jira_page :: page where
  "unknown_jira_page =
     \<lparr>hostname = ''jira.example.com'', pathname = ''/browse/ABC-12'',
      elements = [plain_div, issue_view_div],
      window_JIRA = True, window_AJS_issue_key = Probe_value False\<rparr>"




definition busy_tab_events :: "event list" where
  "busy_tab_events = [START_CAPTURE 7 ''a1'', Transition ''a1'' Preparing]"

section \<open>Properties of the popup\<close>

subsection \<open>Restricted pages\<close>

lemma http_not_restricted:
  assumes "prefix ''http://'' u \<or> prefix ''https://'' u"
  shows "isCapturableUrl (Some u)"
proof -
  from assms obtain r where "u = CHR ''h'' # r"
    by (auto elim!: prefixE)
  then show ?thesis
    by (simp add: restrictedSchemes_def startsWith_def)
qed

lemma not_capturable_iff:
  "(isCapturableUrl url = False) =
     (url = None \<or> url = Some [] \<or>
      (\<exists>u. url = Some u \<and>
         (prefix ''chrome://'' u \<or> prefix ''chrome-extension://'' u \<or> prefix ''brave://'' u
          \<or> prefix ''edge://'' u \<or> prefix ''opera://'' u \<or> prefix ''about:'' u
          \<or> prefix ''view-source:'' u \<or> prefix ''file://'' u)))"
  by (cases url) (auto simp: restrictedSchemes_def startsWith_def)

text \<open>
  Claim C10. \<open>isCapturableUrl\<close> is false exactly for a missing or empty url and for a
  url that starts with one of the eight restricted schemes; every http and https url is
  capturable; and for the active tab \<open>checkCurrentTabUrl\<close> disables the capture button
  (and shows the restricted-page message) exactly when the predicate is false, changing
  nothing otherwise.
\<close>

theorem restricted_urls_decide_capture_button:
  "(isCapturableUrl url = False) =
     (url = None \<or> url = Some [] \<or>
      (\<exists>u. url = Some u \<and>
         (prefix ''chrome://'' u \<or> prefix ''chrome-extension://'' u \<or> prefix ''brave://'' u
          \<or> prefix ''edge://'' u \<or> prefix ''opera://'' u \<or> prefix ''about:'' u
          \<or> prefix ''view-source:'' u \<or> prefix ''file://'' u)))
   \<and> (prefix ''http://'' v \<or> prefix ''https://'' v \<longrightarrow> isCapturableUrl (Some v))
   \<and> (isCapturableUrl (tab_url t) \<longrightarrow> checkCurrentTabUrl (Inr (t # ts)) ui = ui)
   \<and> (\<not> isCapturableUrl (tab_url t) \<longrightarrow>
        captureBtn_disabled (checkCurrentTabUrl (Inr (t # ts)) ui)
        \<and> ''show'' \<in> set (restrictedPageMessage_classList (checkCurrentTabUrl (Inr (t # ts)) ui)))"
proof -
  have "\<not> isCapturableUrl (tab_url t) \<longrightarrow>
        captureBtn_disabled (checkCurrentTabUrl (Inr (t # ts)) ui)
        \<and> ''show'' \<in> set (restrictedPageMessage_classList (checkCurrentTabUrl (Inr (t # ts)) ui))"
    by (simp add: classList_add_def)
  moreover have "isCapturableUrl (tab_url t) \<longrightarrow> checkCurrentTabUrl (Inr (t # ts)) ui = ui"
    by simp
  ultimately show ?thesis
    using not_capturable_iff [of url] http_not_restricted [of v] by blast
qed

theorem restricted_urls_decide_capture_button_witness:
  "isCapturableUrl (Some ''chrome://settings'') = False
   \<and> prefix ''https://'' ''https://example.com/''
   \<and> isCapturableUrl (Some ''https://example.com/'')
   \<and> checkCurrentTabUrl (Inr [\<lparr>tab_url = Some ''https://example.com/''\<rparr>]) closed_popup
       = closed_popup
   \<and> \<not> isCapturableUrl (tab_url \<lparr>tab_url = Some ''chrome://settings''\<rparr>)
   \<and> captureBtn_disabled
       (checkCurrentTabUrl (Inr [\<lparr>tab_url = Some ''chrome://settings''\<rparr>]) closed_popup)"
  using restricted_urls_decide_capture_button
          [of "Some ''chrome://settings''" "''https://example.com/''"
              "\<lparr>tab_url = Some ''https://example.com/''\<rparr>" "[]" closed_popup]
        restricted_urls_decide_capture_button
          [of "Some ''chrome://settings''" "''https://example.com/''"
              "\<lparr>tab_url = Some ''chrome://settings''\<rparr>" "[]" closed_popup]
  by (simp add: restrictedSchemes_def startsWith_def)

subsection \<open>Status display\<close>

lemma status_shown:
  "''show'' \<in> set (statusDiv_classList (showCaptureStatus inh status message progress ui))"
  by (simp add: showCaptureStatus_def Let_def)

text \<open>
  Claim C8. The text \<open>showCaptureStatus\<close> displays is the text it displays without a
  progress value, followed by the percentage in parentheses exactly when the status is
  \<open>capturing\<close> and the progress is neither null nor undefined; for every other status
  and for a null or undefined progress nothing is appended.
\<close>

theorem progress_shown_only_while_capturing:
  "statusMessage_textContent (showCaptureStatus inh status message progress ui) =
     statusMessage_textContent (showCaptureStatus inh status message Undefined ui) @
     (if status = Some ''capturing'' \<and> progress \<noteq> Null \<and> progress \<noteq> Undefined
      then '' ('' @ string_of_progress progress @ ''%)'' else [])"
  by (simp add: showCaptureStatus_def Let_def)

theorem progress_shown_only_while_capturing_witness:
  "statusMessage_textContent
     (showCaptureStatus no_inherited (Some ''capturing'') None (Num 40) closed_popup) =
     ''Capturing viewports... (40%)''
   \<and> statusMessage_textContent
     (showCaptureStatus no_inherited (Some ''stitching'') None (Num 40) closed_popup) =
     ''Stitching images...''"
  using progress_shown_only_while_capturing
          [of no_inherited "Some ''capturing''" None "Num 40" closed_popup]
        progress_shown_only_while_capturing
          [of no_inherited "Some ''stitching''" None "Num 40" closed_popup]
  by (simp add: showCaptureStatus_def Let_def statusTextMap_get_def statusTextMap_def
        property_key_def string_of_int_def digit_char_def)

subsection \<open>The stored capture state\<close>

text \<open>
  Claim C7. For a stored record whose status is neither \<open>completed\<close> nor \<open>error\<close>:
  when its timestamp is less than 60000 ms old the popup shows its status and disables
  the capture button; when it is 60000 ms old or older the popup is left exactly as it
  was, so the capture button stays as enabled as it was. The age is \<open>now\<close> minus the
  timestamp, a missing timestamp counting as 0.
\<close>

theorem stale_session_is_abandoned:
  assumes "cs_status state \<noteq> Some ''completed''" and "cs_status state \<noteq> Some ''error''"
  shows
   "(state_age now state < 60000 \<longrightarrow>
       captureBtn_disabled
         (checkActiveCaptureState inh now (Some \<lparr>sr_captureState = Some state\<rparr>) ui)
       \<and> ''show'' \<in> set (statusDiv_classList
            (checkActiveCaptureState inh now (Some \<lparr>sr_captureState = Some state\<rparr>) ui))
       \<and> statusMessage_textContent
            (checkActiveCaptureState inh now (Some \<lparr>sr_captureState = Some state\<rparr>) ui) =
          statusMessage_textContent
            (showCaptureStatus inh (cs_status state) (cs_message state) (cs_progress state) ui))
    \<and> (60000 \<le> state_age now state \<longrightarrow>
         checkActiveCaptureState inh now (Some \<lparr>sr_captureState = Some state\<rparr>) ui = ui)
    \<and> state_age now state = now - (case cs_timestamp state of None \<Rightarrow> 0 | Some t \<Rightarrow> t)"
  using assms
  by (simp add: checkActiveCaptureState_def Let_def status_shown state_age_def)

theorem stale_session_is_abandoned_witness:
  "cs_status capturing_state \<noteq> Some ''completed''
   \<and> cs_status capturing_state \<noteq> Some ''error''
   \<and> state_age 1700000059999 capturing_state < 60000
   \<and> captureBtn_disabled
       (checkActiveCaptureState no_inherited 1700000059999
          (Some \<lparr>sr_captureState = Some capturing_state\<rparr>) closed_popup)
   \<and> 60000 \<le> state_age 1700000060000 capturing_state
   \<and> checkActiveCaptureState no_inherited 1700000060000
        (Some \<lparr>sr_captureState = Some capturing_state\<rparr>) closed_popup = closed_popup
   \<and> \<not> captureBtn_disabled
       (checkActiveCaptureState no_inherited 1700000060000
          (Some \<lparr>sr_captureState = Some capturing_state\<rparr>) closed_popup)"
proof -
  have status: "cs_status capturing_state \<noteq> Some ''completed''"
    "cs_status capturing_state \<noteq> Some ''error''"
    by (simp_all add: capturing_state_def)
  have fresh: "state_age 1700000059999 capturing_state < 60000"
    and stale: "60000 \<le> state_age 1700000060000 capturing_state"
    by (simp_all add: state_age_def capturing_state_def)
  have "\<not> captureBtn_disabled closed_popup" by (simp add: closed_popup_def)
  with status fresh stale
    stale_session_is_abandoned [OF status, of 1700000059999 no_inherited closed_popup]
    stale_session_is_abandoned [OF status, of 1700000060000 no_inherited closed_popup]
  show ?thesis by simp
qed

subsection \<open>Starting the Jira center capture\<close>

lemma orchestrator_runtime_start:
  "orchestrator_runtime requesting_tab sid sessions
     \<lparr>req_type = ''START_JIRA_CENTER_CAPTURE'', req_has_config = False\<rparr> =
   (if active_sessions requesting_tab sessions = []
    then Response \<lparr>success = True, error = None, sessionId = Some sid\<rparr>
    else Response \<lparr>success = False, error = Some ''capture already active'',
                    sessionId = None\<rparr>)"
  by (auto simp: orchestrator_runtime_def active_sessions_def list_ex_iff filter_empty_conv)

text \<open>
  Claim C5, amended. The site-specific center capture is initiated by a message of kind
  \<open>START_JIRA_CENTER_CAPTURE\<close> whose successful response carries a \<open>sessionId\<close>: the
  popup's Jira center capture button sends one message, of this kind and without a
  configuration; the orchestrator answers it, with success and the new session's
  identifier when the tab has no Active session, and every successful answer carries the
  identifier. On a successful response the popup keeps the three buttons disabled and
  shows no error; otherwise it enables them again and shows \<open>Capture failed!\<close> with
  the error: the runtime's error, \<open>No response from background\<close>, or the response's
  error, \<open>Jira center capture failed\<close> when that is missing or empty.
\<close>

theorem jira_center_capture_message:
  "fst (handleJiraCenterCapture runtime ui) =
     [\<lparr>req_type = ''START_JIRA_CENTER_CAPTURE'', req_has_config = False\<rparr>]
   \<and> (\<exists>answer. orchestrator_runtime requesting_tab sid sessions
         \<lparr>req_type = ''START_JIRA_CENTER_CAPTURE'', req_has_config = False\<rparr> = Response answer)
   \<and> (orchestrator_runtime requesting_tab sid sessions
         \<lparr>req_type = ''START_JIRA_CENTER_CAPTURE'', req_has_config = False\<rparr> = Response answer
        \<and> success answer \<longrightarrow> sessionId answer = Some sid)
   \<and> (active_sessions requesting_tab sessions = [] \<longrightarrow>
        orchestrator_runtime requesting_tab sid sessions
          \<lparr>req_type = ''START_JIRA_CENTER_CAPTURE'', req_has_config = False\<rparr> =
        Response \<lparr>success = True, error = None, sessionId = Some sid\<rparr>)
   \<and> (runtime \<lparr>req_type = ''START_JIRA_CENTER_CAPTURE'', req_has_config = False\<rparr> = Response r
        \<and> success r \<longrightarrow>
        captureBtn_disabled (snd (handleJiraCenterCapture runtime ui))
        \<and> regionCaptureBtn_disabled (snd (handleJiraCenterCapture runtime ui))
        \<and> jiraCenterCaptureBtn_disabled (snd (handleJiraCenterCapture runtime ui))
        \<and> errorMessage_textContent (snd (handleJiraCenterCapture runtime ui)) = []
        \<and> ''show'' \<notin> set (errorMessage_classList (snd (handleJiraCenterCapture runtime ui)))
        \<and> statusDiv_classList (snd (handleJiraCenterCapture runtime ui)) =
            [''status'', ''show'', ''info'']
        \<and> statusMessage_textContent (snd (handleJiraCenterCapture runtime ui)) =
            ''Starting Jira center capture...'')
   \<and> ((\<forall>r'. runtime \<lparr>req_type = ''START_JIRA_CENTER_CAPTURE'', req_has_config = False\<rparr>
               = Response r' \<longrightarrow> \<not> success r') \<longrightarrow>
        \<not> captureBtn_disabled (snd (handleJiraCenterCapture runtime ui))
        \<and> \<not> regionCaptureBtn_disabled (snd (handleJiraCenterCapture runtime ui))
        \<and> \<not> jiraCenterCaptureBtn_disabled (snd (handleJiraCenterCapture runtime ui))
        \<and> ''show'' \<in> set (errorMessage_classList (snd (handleJiraCenterCapture runtime ui)))
        \<and> statusDiv_classList (snd (handleJiraCenterCapture runtime ui)) =
            [''status'', ''show'', ''error'']
        \<and> statusMessage_textContent (snd (handleJiraCenterCapture runtime ui)) =
            ''Capture failed!''
        \<and> errorMessage_textContent (snd (handleJiraCenterCapture runtime ui)) =
            (case runtime \<lparr>req_type = ''START_JIRA_CENTER_CAPTURE'', req_has_config = False\<rparr> of
               LastError m \<Rightarrow> m
             | NoResponse \<Rightarrow> ''No response from background''
             | Response r' \<Rightarrow>
                 (case error r' of
                    None \<Rightarrow> ''Jira center capture failed''
                  | Some e \<Rightarrow> if e = [] then ''Jira center capture failed'' else e)))"
proof -
  let ?sent = "\<lparr>req_type = ''START_JIRA_CENTER_CAPTURE'', req_has_config = False\<rparr>"
  let ?ui' = "snd (handleJiraCenterCapture runtime ui)"
  have sent: "fst (handleJiraCenterCapture runtime ui) = [?sent]"
    by (simp add: handleJiraCenterCapture_def Let_def)
  have answered: "\<exists>answer. orchestrator_runtime requesting_tab sid sessions ?sent = Response answer"
    by (simp add: orchestrator_runtime_start)
  have carries: "orchestrator_runtime requesting_tab sid sessions ?sent = Response answer
        \<and> success answer \<longrightarrow> sessionId answer = Some sid"
    by (auto simp: orchestrator_runtime_start split: if_splits)
  have started: "active_sessions requesting_tab sessions = [] \<longrightarrow>
        orchestrator_runtime requesting_tab sid sessions ?sent =
        Response \<lparr>success = True, error = None, sessionId = Some sid\<rparr>"
    by (simp add: orchestrator_runtime_start)
  have accepted: "runtime ?sent = Response r \<and> success r \<longrightarrow>
        captureBtn_disabled ?ui'
        \<and> regionCaptureBtn_disabled ?ui'
        \<and> jiraCenterCaptureBtn_disabled ?ui'
        \<and> errorMessage_textContent ?ui' = []
        \<and> ''show'' \<notin> set (errorMessage_classList ?ui')
        \<and> statusDiv_classList ?ui' = [''status'', ''show'', ''info'']
        \<and> statusMessage_textContent ?ui' = ''Starting Jira center capture...''"
    by (simp add: handleJiraCenterCapture_def Let_def classList_remove_def)
  have failed: "(\<forall>r'. runtime ?sent = Response r' \<longrightarrow> \<not> success r') \<longrightarrow>
        \<not> captureBtn_disabled ?ui'
        \<and> \<not> regionCaptureBtn_disabled ?ui'
        \<and> \<not> jiraCenterCaptureBtn_disabled ?ui'
        \<and> ''show'' \<in> set (errorMessage_classList ?ui')
        \<and> statusDiv_classList ?ui' = [''status'', ''show'', ''error'']
        \<and> statusMessage_textContent ?ui' = ''Capture failed!''
        \<and> errorMessage_textContent ?ui' =
            (case runtime ?sent of
               LastError m \<Rightarrow> m
             | NoResponse \<Rightarrow> ''No response from background''
             | Response r' \<Rightarrow>
                 (case error r' of
                    None \<Rightarrow> ''Jira center capture failed''
                  | Some e \<Rightarrow> if e = [] then ''Jira center capture failed'' else e))"
    by (auto simp: handleJiraCenterCapture_def Let_def handleJiraCenterCapture_catch_def
          classList_add_def or_default_def split: send_result.splits option.splits)
  from sent answered carries started accepted failed show ?thesis by blast
qed

theorem jira_center_capture_message_witness:
  "active_sessions 7 [] = []
   \<and> orchestrator_runtime 7 ''k3x9q'' []
       \<lparr>req_type = ''START_JIRA_CENTER_CAPTURE'', req_has_config = False\<rparr> =
     Response \<lparr>success = True, error = None, sessionId = Some ''k3x9q''\<rparr>
   \<and> success \<lparr>success = True, error = None, sessionId = Some ''k3x9q''\<rparr>
   \<and> sessionId \<lparr>success = True, error = None, sessionId = Some ''k3x9q''\<rparr> = Some ''k3x9q''
   \<and> fst (handleJiraCenterCapture (orchestrator_runtime 7 ''k3x9q'' []) closed_popup) =
       [\<lparr>req_type = ''START_JIRA_CENTER_CAPTURE'', req_has_config = False\<rparr>]
   \<and> captureBtn_disabled
       (snd (handleJiraCenterCapture (orchestrator_runtime 7 ''k3x9q'' []) closed_popup))
   \<and> errorMessage_textContent
       (snd (handleJiraCenterCapture (orchestrator_runtime 7 ''k3x9q'' []) closed_popup)) = []
   \<and> \<not> captureBtn_disabled
       (snd (handleJiraCenterCapture
              (orchestrator_runtime 7 ''b2'' (orchestrator_run busy_tab_events []))
              closed_popup))
   \<and> errorMessage_textContent
       (snd (handleJiraCenterCapture
              (orchestrator_runtime 7 ''b2'' (orchestrator_run busy_tab_events []))
              closed_popup)) = ''capture already active''"
proof -
  let ?sent = "\<lparr>req_type = ''START_JIRA_CENTER_CAPTURE'', req_has_config = False\<rparr>"
  let ?ok = "\<lparr>success = True, error = None, sessionId = Some ''k3x9q''\<rparr>"
  let ?busy = "orchestrator_runtime 7 ''b2'' (orchestrator_run busy_tab_events [])"
  have idle: "active_sessions 7 [] = []" by (simp add: active_sessions_def)
  note free = jira_center_capture_message
      [of "orchestrator_runtime 7 ''k3x9q'' []" closed_popup 7 "''k3x9q''" "[]" ?ok ?ok]
  from free idle
  have answer: "orchestrator_runtime 7 ''k3x9q'' [] ?sent = Response ?ok" by blast
  have ok: "success ?ok" by simp
  from free answer ok
  have accepted: "sessionId ?ok = Some ''k3x9q''"
    "fst (handleJiraCenterCapture (orchestrator_runtime 7 ''k3x9q'' []) closed_popup) = [?sent]"
    "captureBtn_disabled
       (snd (handleJiraCenterCapture (orchestrator_runtime 7 ''k3x9q'' []) closed_popup))"
    "errorMessage_textContent
       (snd (handleJiraCenterCapture (orchestrator_runtime 7 ''k3x9q'' []) closed_popup)) = []"
    by blast+
  have rejected: "?busy ?sent =
      Response \<lparr>success = False, error = Some ''capture already active'', sessionId = None\<rparr>"
    by (simp add: orchestrator_runtime_start busy_tab_events_def allowed_def
          active_sessions_def is_active_def)
  then have none: "\<forall>r'. ?busy ?sent = Response r' \<longrightarrow> \<not> success r'" by auto
  note busy = jira_center_capture_message [of ?busy closed_popup]
  from busy none
  have "\<not> captureBtn_disabled (snd (handleJiraCenterCapture ?busy closed_popup))"
    and "errorMessage_textContent (snd (handleJiraCenterCapture ?busy closed_popup)) =
      (case ?busy ?sent of
         LastError m \<Rightarrow> m
       | NoResponse \<Rightarrow> ''No response from background''
       | Response r' \<Rightarrow>
           (case error r' of
              None \<Rightarrow> ''Jira center capture failed''
            | Some e \<Rightarrow> if e = [] then ''Jira center capture failed'' else e))"
    by blast+
  with rejected
  have failed: "\<not> captureBtn_disabled (snd (handleJiraCenterCapture ?busy closed_popup))"
    "errorMessage_textContent (snd (handleJiraCenterCapture ?busy closed_popup)) =
      ''capture already active''"
    by simp_all
  from idle answer ok accepted failed show ?thesis by blast
qed

text \<open>The message the button sends is not of the kind \<open>START_SITE_CENTER_CAPTURE\<close>.\<close>

theorem site_center_capture_kind_counterexample:
  "map req_type (fst (handleJiraCenterCapture accepting_runtime closed_popup)) =
     [''START_JIRA_CENTER_CAPTURE'']
   \<and> ''START_SITE_CENTER_CAPTURE''
       \<notin> set (map req_type (fst (handleJiraCenterCapture accepting_runtime closed_popup)))"
  by (simp add: handleJiraCenterCapture_def Let_def)

section \<open>Properties of the Jira site handler\<close>

subsection \<open>The sample pages\<close>

lemma detect_plain_page: "detect plain_page = Inr \<lparr>det_type = None, detected = False\<rparr>"
  by code_simp

lemma detect_unknown_jira_page:
  "detect unknown_jira_page = Inr \<lparr>det_type = Some ''jira-unknown'', detected = True\<rparr>"
  by code_simp

lemma container_unknown_jira_page:
  "findScrollContainer unknown_jira_page = Inr (Some (container_of ''jira-server'' issue_view_div))"
  by code_simp

lemma bounds_unknown_jira_page: "getCenterBounds unknown_jira_page = Inr None"
  by code_simp

lemma container_plain_page: "findScrollContainer plain_page = Inr None"
  by code_simp

lemma find_SomeD: "find P xs = Some x \<Longrightarrow> x \<in> set xs \<and> P x"
  by (induction xs) (auto split: if_splits)

lemma querySelector_in: "querySelector p sel = Some el \<Longrightarrow> el \<in> set (elements p)"
  by (auto simp: querySelector_def dest: find_SomeD)

lemma querySelectorAll_in: "el \<in> set (querySelectorAll p sel) \<Longrightarrow> el \<in> set (elements p)"
  by (simp add: querySelectorAll_def)

lemma server_container:
  assumes "findServerScrollContainer p = Some c"
  shows "c_element c \<in> set (elements p) \<and> hasOverflow (c_element c)
     \<and> scrollHeight (c_element c) > clientHeight (c_element c) + 10
     \<and> c_scrollHeight c = scrollHeight (c_element c)
     \<and> c_clientHeight c = clientHeight (c_element c)"
  using assms
  by (auto simp: findServerScrollContainer_def Let_def container_of_def
      split: option.splits if_splits dest: querySelector_in)

lemma cloud_elements_loop_container:
  assumes "cloud_elements_loop els = Some c"
  shows "c_element c \<in> set els \<and> hasOverflow (c_element c)
     \<and> scrollHeight (c_element c) > clientHeight (c_element c) + 10
     \<and> c_scrollHeight c = scrollHeight (c_element c)
     \<and> c_clientHeight c = clientHeight (c_element c)"
  using assms
  by (induction els) (auto simp: Let_def container_of_def split: if_splits)

lemma cloud_selectors_loop_container:
  assumes "cloud_selectors_loop p sels = Some c"
  shows "c_element c \<in> set (elements p) \<and> hasOverflow (c_element c)
     \<and> scrollHeight (c_element c) > clientHeight (c_element c) + 10
     \<and> c_scrollHeight c = scrollHeight (c_element c)
     \<and> c_clientHeight c = clientHeight (c_element c)"
  using assms
proof (induction sels)
  case Nil
  then show ?case by simp
next
  case (Cons sel sels)
  show ?case
  proof (cases "cloud_elements_loop (querySelectorAll p sel)")
    case None
    with Cons show ?thesis by simp
  next
    case (Some c')
    with Cons.prems have "c' = c" by simp
    with Some cloud_elements_loop_container [of "querySelectorAll p sel" c]
    show ?thesis by (auto dest: querySelectorAll_in)
  qed
qed

lemma largest_loop_element:
  assumes "largest_loop els bestMatch best = Some el"
  shows "bestMatch = Some el \<or>
     (el \<in> set els \<and> hasOverflow el \<and> scrollHeight el > clientHeight el + 50)"
  using assms
  by (induction els bestMatch best rule: largest_loop.induct)
     (auto simp: Let_def split: if_splits)

lemma largest_container:
  assumes "findLargestScrollableElement p = Some c"
  shows "c_element c \<in> set (elements p) \<and> hasOverflow (c_element c)
     \<and> scrollHeight (c_element c) > clientHeight (c_element c) + 50
     \<and> c_scrollHeight c = scrollHeight (c_element c)
     \<and> c_clientHeight c = clientHeight (c_element c)"
proof -
  from assms obtain el where el: "largest_loop (querySelectorAll p universal) None 0 = Some el"
    and c: "c = container_of ''jira-fallback'' el"
    by (auto simp: findLargestScrollableElement_def split: option.splits)
  from largest_loop_element [OF el]
  have "el \<in> set (querySelectorAll p universal) \<and> hasOverflow el
      \<and> scrollHeight el > clientHeight el + 50" by simp
  with c show ?thesis by (auto simp: container_of_def dest: querySelectorAll_in)
qed

lemma cloud_container:
  assumes "findCloudScrollContainer p = Some c"
  shows "c_element c \<in> set (elements p) \<and> hasOverflow (c_element c)
     \<and> scrollHeight (c_element c) > clientHeight (c_element c) + 10
     \<and> c_scrollHeight c = scrollHeight (c_element c)
     \<and> c_clientHeight c = clientHeight (c_element c)"
proof (cases "cloud_selectors_loop p cloud_selectors")
  case None
  with assms have "findLargestScrollableElement p = Some c"
    by (simp add: findCloudScrollContainer_def)
  from largest_container [OF this] show ?thesis by simp
next
  case (Some c')
  with assms have "c' = c" by (simp add: findCloudScrollContainer_def)
  with Some cloud_selectors_loop_container [of p cloud_selectors c]
  show ?thesis by simp
qed

lemma findScrollContainer_cases:
  assumes "findScrollContainer p = Inr (Some c)"
  shows "findServerScrollContainer p = Some c \<or> findCloudScrollContainer p = Some c"
  using assms
  by (auto simp: findScrollContainer_def split: sum.splits if_splits option.splits)

lemma findScrollContainer_returns:
  assumes "detect p = Inr d"
  shows "\<exists>r. findScrollContainer p = Inr r"
  using assms
  by (auto simp: findScrollContainer_def split: option.splits)


lemma detect_throws:
  assumes "detect p = Inl e"
  shows "findScrollContainer p = Inl e \<and> getCenterBounds p = Inl e"
  using assms by (simp add: findScrollContainer_def getCenterBounds_def)

subsection \<open>Scroll containers\<close>

text \<open>
  Claim C4. A record returned by \<open>findScrollContainer\<close> names an element of the page
  whose computed \<open>overflow-y\<close> is \<open>auto\<close> or \<open>scroll\<close> and whose \<open>scrollHeight\<close> exceeds
  its \<open>clientHeight\<close> by more than 10, and carries that element's two heights; and on
  a page where no element passes both tests, the result (when \<open>detect\<close> returns) is
  null.
\<close>

theorem scroll_container_is_scrollable:
  "(findScrollContainer p = Inr (Some c) \<longrightarrow>
      c_element c \<in> set (elements p)
      \<and> (overflowY (c_element c) = ''auto'' \<or> overflowY (c_element c) = ''scroll'')
      \<and> scrollHeight (c_element c) > clientHeight (c_element c) + 10
      \<and> c_scrollHeight c = scrollHeight (c_element c)
      \<and> c_clientHeight c = clientHeight (c_element c))
   \<and> ((\<forall>el \<in> set (elements p).
          \<not> ((overflowY el = ''auto'' \<or> overflowY el = ''scroll'')
             \<and> scrollHeight el > clientHeight el + 10))
        \<and> detect p = Inr d \<longrightarrow> findScrollContainer p = Inr None)"
proof -
  have found: "c_element c' \<in> set (elements p)
      \<and> (overflowY (c_element c') = ''auto'' \<or> overflowY (c_element c') = ''scroll'')
      \<and> scrollHeight (c_element c') > clientHeight (c_element c') + 10
      \<and> c_scrollHeight c' = scrollHeight (c_element c')
      \<and> c_clientHeight c' = clientHeight (c_element c')"
    if "findScrollContainer p = Inr (Some c')" for c'
    using findScrollContainer_cases [OF that] server_container [of p c'] cloud_container [of p c']
    by (auto simp: hasOverflow_def)
  have none: "findScrollContainer p = Inr None"
    if no: "\<forall>el \<in> set (elements p).
          \<not> ((overflowY el = ''auto'' \<or> overflowY el = ''scroll'')
             \<and> scrollHeight el > clientHeight el + 10)"
      and d: "detect p = Inr d"
  proof -
    from findScrollContainer_returns [OF d] obtain r where r: "findScrollContainer p = Inr r"
      by blast
    show ?thesis
    proof (cases r)
      case None
      with r show ?thesis by simp
    next
      case (Some c')
      with r found [of c'] no show ?thesis by blast
    qed
  qed
  from found [of c] none show ?thesis by blast
qed


theorem scroll_container_is_scrollable_witness:
  "findScrollContainer unknown_jira_page =
     Inr (Some (container_of ''jira-server'' issue_view_div))
   \<and> overflowY (c_element (container_of ''jira-server'' issue_view_div)) = ''auto''
   \<and> scrollHeight (c_element (container_of ''jira-server'' issue_view_div)) >
       clientHeight (c_element (container_of ''jira-server'' issue_view_div)) + 10
   \<and> elements plain_page = [plain_div]
   \<and> overflowY plain_div = ''visible''
   \<and> detect plain_page = Inr \<lparr>det_type = None, detected = False\<rparr>
   \<and> findScrollContainer plain_page = Inr None"
proof -
  have plain: "\<forall>el \<in> set (elements plain_page).
      \<not> ((overflowY el = ''auto'' \<or> overflowY el = ''scroll'')
         \<and> scrollHeight el > clientHeight el + 10)"
    by (simp add: plain_page_def plain_div_def)
  have "overflowY issue_view_div = ''auto''"
    by (simp add: issue_view_div_def)
  with plain detect_plain_page container_unknown_jira_page
    scroll_container_is_scrollable
      [of unknown_jira_page "container_of ''jira-server'' issue_view_div"]
    scroll_container_is_scrollable
      [of plain_page _ "\<lparr>det_type = None, detected = False\<rparr>"]
  show ?thesis
    by (simp add: container_of_def plain_page_def plain_div_def)
qed

text \<open>
  Claim C6. Whenever \<open>detect\<close> returns a result whose \<open>detected\<close> is false,
  \<open>findScrollContainer\<close> returns null.
\<close>

theorem undetected_page_has_no_container:
  assumes "detect p = Inr d" and "\<not> detected d"
  shows "findScrollContainer p = Inr None"
  using assms by (simp add: findScrollContainer_def)


theorem undetected_page_has_no_container_witness:
  "detect plain_page = Inr \<lparr>det_type = None, detected = False\<rparr>
   \<and> \<not> detected \<lparr>det_type = None, detected = False\<rparr>
   \<and> findScrollContainer plain_page = Inr None"
  using undetected_page_has_no_container [OF detect_plain_page] detect_plain_page
  by simp

subsection \<open>Center bounds\<close>

lemma detect_types:
  assumes "detect p = Inr d"
  shows "(det_type d = Some ''jira-cloud'' \<or> det_type d = Some ''jira-server''
          \<or> det_type d = Some ''jira-unknown'') \<and> detected d
       \<or> det_type d = None \<and> \<not> detected d"
  using assms
  by (auto simp: detect_def split: if_splits sum.splits bool.splits)


text \<open>
  Claim C9. \<open>getCenterBounds\<close> returns null whenever \<open>detect\<close> classifies the page as
  \<open>jira-unknown\<close> or as not detected; it yields bounds only for the types
  \<open>jira-server\<close> and \<open>jira-cloud\<close>; and there is a \<open>jira-unknown\<close> page for which
  \<open>findScrollContainer\<close> returns a container while \<open>getCenterBounds\<close> returns null.
\<close>

theorem center_bounds_need_server_or_cloud:
  "(detect p = Inr d \<and> (det_type d = Some ''jira-unknown'' \<or> \<not> detected d)
      \<longrightarrow> getCenterBounds p = Inr None)
   \<and> (getCenterBounds p = Inr (Some b) \<longrightarrow>
        (\<exists>d'. detect p = Inr d'
           \<and> (det_type d' = Some ''jira-server'' \<or> det_type d' = Some ''jira-cloud'')))
   \<and> (\<exists>q c. detect q = Inr \<lparr>det_type = Some ''jira-unknown'', detected = True\<rparr>
          \<and> findScrollContainer q = Inr (Some c) \<and> getCenterBounds q = Inr None)"
proof -
  have a: "detect p = Inr d \<and> (det_type d = Some ''jira-unknown'' \<or> \<not> detected d)
      \<longrightarrow> getCenterBounds p = Inr None"
    using detect_types [of p d] by (auto simp: getCenterBounds_def)
  have b: "getCenterBounds p = Inr (Some b) \<longrightarrow>
        (\<exists>d'. detect p = Inr d'
           \<and> (det_type d' = Some ''jira-server'' \<or> det_type d' = Some ''jira-cloud''))"
    by (auto simp: getCenterBounds_def split: sum.splits if_splits)
  have c: "\<exists>q c. detect q = Inr \<lparr>det_type = Some ''jira-unknown'', detected = True\<rparr>
          \<and> findScrollContainer q = Inr (Some c) \<and> getCenterBounds q = Inr None"
    using detect_unknown_jira_page container_unknown_jira_page bounds_unknown_jira_page
    by blast
  from a b c show ?thesis by blast
qed


theorem center_bounds_need_server_or_cloud_witness:
  "detect unknown_jira_page = Inr \<lparr>det_type = Some ''jira-unknown'', detected = True\<rparr>
   \<and> det_type \<lparr>det_type = Some ''jira-unknown'', detected = True\<rparr> = Some ''jira-unknown''
   \<and> getCenterBounds unknown_jira_page = Inr None"
  using center_bounds_need_server_or_cloud
          [of unknown_jira_page "\<lparr>det_type = Some ''jira-unknown'', detected = True\<rparr>"]
        detect_unknown_jira_page
  by simp

section \<open>Properties of the capture core\<close>

subsection \<open>One active session per tab\<close>

lemma length_filter_map_le:
  assumes "\<And>x. P (f x) \<Longrightarrow> Q x"
  shows "length (filter P (map f xs)) \<le> length (filter Q xs)"
  by (induction xs) (auto dest: assms)

lemma allowed_from_active: "allowed s t \<Longrightarrow> s \<noteq> Completed \<and> s \<noteq> Error"
  by (auto simp: allowed_def)

lemma step_active_sessions:
  assumes "length (active_sessions t sessions) \<le> 1"
  shows "length (active_sessions t (snd (orchestrator_step ev sessions))) \<le> 1"
proof (cases ev)
  case (START_CAPTURE requesting_tab sid)
  show ?thesis
  proof (cases "list_ex (\<lambda>s. session_tab s = requesting_tab \<and> is_active s) sessions")
    case True
    with START_CAPTURE assms show ?thesis by simp
  next
    case False
    then have none: "active_sessions requesting_tab sessions = []"
      by (auto simp: active_sessions_def list_ex_iff filter_empty_conv)
    show ?thesis
    proof (cases "t = requesting_tab")
      case True
      with START_CAPTURE False none show ?thesis
        by (simp add: active_sessions_def)
    next
      case neq: False
      with START_CAPTURE False assms show ?thesis
        by (simp add: active_sessions_def)
    qed
  qed
next
  case (Transition sid st)
  have "length (active_sessions t (snd (orchestrator_step ev sessions)))
      \<le> length (active_sessions t sessions)"
    unfolding Transition active_sessions_def orchestrator_step.simps snd_conv
    by (rule length_filter_map_le) (auto simp: is_active_def dest: allowed_from_active split: if_splits)
  with assms show ?thesis by simp
qed

lemma run_active_sessions:
  assumes "length (active_sessions t sessions) \<le> 1"
  shows "length (active_sessions t (orchestrator_run evs sessions)) \<le> 1"
  using assms
proof (induction evs arbitrary: sessions)
  case Nil
  then show ?case by simp
next
  case (Cons ev evs)
  from step_active_sessions [OF Cons.prems]
  have "length (active_sessions t (snd (orchestrator_step ev sessions))) \<le> 1" .
  from Cons.IH [OF this] show ?case by simp
qed

lemma start_rejected:
  assumes "active_sessions t sessions \<noteq> []"
  shows "orchestrator_step (START_CAPTURE t sid) sessions =
           (Rejected ''capture already active'', sessions)"
proof -
  from assms have "list_ex (\<lambda>s. session_tab s = t \<and> is_active s) sessions"
    by (auto simp: active_sessions_def list_ex_iff filter_empty_conv)
  then show ?thesis by simp
qed

lemma run_append:
  "orchestrator_run (evs @ evs') sessions = orchestrator_run evs' (orchestrator_run evs sessions)"
  by (induction evs arbitrary: sessions) auto

lemma busy_tab_sessions:
  "orchestrator_run busy_tab_events [] =
     [\<lparr>session_id = ''a1'', session_tab = 7, session_status = Preparing\<rparr>]"
  by (simp add: busy_tab_events_def allowed_def)


text \<open>
  Claim C1. Whatever events the orchestrator has handled, each requesting tab has at
  most one Active session; and a \<open>START_CAPTURE\<close> request for a tab that has an Active
  session is rejected with the error \<open>capture already active\<close>, leaves the sessions as
  they were (nothing is queued, the first session is not preempted), and makes no
  difference to anything the orchestrator does afterwards.
\<close>

theorem at_most_one_active_session:
  "length (active_sessions t (orchestrator_run evs [])) \<le> 1
   \<and> (active_sessions t (orchestrator_run evs []) \<noteq> [] \<longrightarrow>
        orchestrator_step (START_CAPTURE t sid) (orchestrator_run evs []) =
          (Rejected ''capture already active'', orchestrator_run evs [])
        \<and> orchestrator_run (evs @ START_CAPTURE t sid # evs') [] =
            orchestrator_run (evs @ evs') [])"
proof -
  have "length (active_sessions t (orchestrator_run evs [])) \<le> 1"
    by (rule run_active_sessions) (simp add: active_sessions_def)
  moreover have "orchestrator_step (START_CAPTURE t sid) (orchestrator_run evs []) =
          (Rejected ''capture already active'', orchestrator_run evs [])
        \<and> orchestrator_run (evs @ START_CAPTURE t sid # evs') [] =
            orchestrator_run (evs @ evs') []"
    if "active_sessions t (orchestrator_run evs []) \<noteq> []"
    using start_rejected [OF that, of sid] by (simp add: run_append)
  ultimately show ?thesis by blast
qed

theorem at_most_one_active_session_witness:
  "active_sessions 7 (orchestrator_run busy_tab_events []) \<noteq> []
   \<and> length (active_sessions 7 (orchestrator_run busy_tab_events [])) \<le> 1
   \<and> orchestrator_step (START_CAPTURE 7 ''b2'') (orchestrator_run busy_tab_events []) =
       (Rejected ''capture already active'',
        [\<lparr>session_id = ''a1'', session_tab = 7, session_status = Preparing\<rparr>])
   \<and> orchestrator_run (busy_tab_events @ START_CAPTURE 7 ''b2'' # [Transition ''a1'' Capturing]) [] =
       orchestrator_run (busy_tab_events @ [Transition ''a1'' Capturing]) []"
proof -
  have active: "active_sessions 7 (orchestrator_run busy_tab_events []) \<noteq> []"
    by (simp add: busy_tab_sessions active_sessions_def is_active_def)
  with at_most_one_active_session [of 7 busy_tab_events "''b2''" "[Transition ''a1'' Capturing]"]
  show ?thesis by (simp add: busy_tab_sessions)
qed


subsection \<open>The composite never exceeds its ceiling\<close>













subsection \<open>The scroll step\<close>

lemma upt_shift:
  "map (\<lambda>k. a + int k * s) [0..<Suc m] = a # map (\<lambda>k. (a + s) + int k * s) [0..<m]"
proof -
  have "[0..<Suc m] = 0 # map Suc [0..<m]"
    by (simp add: upt_conv_Cons map_Suc_upt del: upt_Suc)
  then show ?thesis
    by (simp add: comp_def algebra_simps del: upt_Suc)
qed

lemma capture_loop_steps:
  "\<exists>m. requested_offsets (snd (capture_loop n g overlap offset previous st)) =
     requested_offsets st @ map (\<lambda>k. offset + int k * (sg_clientHeight g - overlap)) [0..<m]"
proof (induction n arbitrary: offset previous st)
  case 0
  have "requested_offsets (snd (capture_loop 0 g overlap offset previous st)) =
     requested_offsets st @ map (\<lambda>k. offset + int k * (sg_clientHeight g - overlap)) [0..<0]"
    by simp
  then show ?case by blast
next
  case (Suc n)
  let ?s = "sg_clientHeight g - overlap"
  let ?frame = "\<lparr>frame_offset = scrollTo g offset, frame_height = sg_clientHeight g\<rparr>"
  let ?st = "\<lambda>buf. st\<lparr>requested_offsets := requested_offsets st @ [offset],
                 settled_offsets := settled_offsets st @ [scrollTo g offset],
                 composite := buf\<rparr>"
  obtain e buf where ap: "appendFrame (composite st) ?frame = (e, buf)"
    by (cases "appendFrame (composite st) ?frame")
  have "requested_offsets (snd (capture_loop (Suc n) g overlap offset previous st))
        = requested_offsets st
     \<or> requested_offsets (snd (capture_loop (Suc n) g overlap offset previous st))
        = requested_offsets st @ [offset]
     \<or> capture_loop (Suc n) g overlap offset previous st =
        capture_loop n g overlap (offset + ?s) (Some (scrollTo g offset)) (?st buf)"
  proof (cases "case previous of None \<Rightarrow> False | Some before \<Rightarrow> scrollTo g offset \<le> before")
    case True
    then show ?thesis by (simp add: Let_def)
  next
    case False
    show ?thesis
    proof (cases e)
      case None
      with False ap show ?thesis by (simp add: Let_def)
    next
      case (Some err)
      with False ap show ?thesis by (cases err) (simp add: Let_def)
    qed
  qed
  then consider (stop) "requested_offsets (snd (capture_loop (Suc n) g overlap offset previous st))
        = requested_offsets st"
    | (last) "requested_offsets (snd (capture_loop (Suc n) g overlap offset previous st))
        = requested_offsets st @ [offset]"
    | (go) "capture_loop (Suc n) g overlap offset previous st =
        capture_loop n g overlap (offset + ?s) (Some (scrollTo g offset)) (?st buf)"
    by blast
  then show ?case
  proof cases
    case stop
    then have "requested_offsets (snd (capture_loop (Suc n) g overlap offset previous st)) =
       requested_offsets st @ map (\<lambda>k. offset + int k * ?s) [0..<0]" by simp
    then show ?thesis by blast
  next
    case last
    then have "requested_offsets (snd (capture_loop (Suc n) g overlap offset previous st)) =
       requested_offsets st @ map (\<lambda>k. offset + int k * ?s) [0..<Suc 0]" by simp
    then show ?thesis by blast
  next
    case go
    from Suc.IH [of "offset + ?s" "Some (scrollTo g offset)" "?st buf"]
    obtain m where "requested_offsets (snd (capture_loop n g overlap (offset + ?s)
          (Some (scrollTo g offset)) (?st buf))) =
        requested_offsets (?st buf) @ map (\<lambda>k. (offset + ?s) + int k * ?s) [0..<m]"
      by blast
    with go have "requested_offsets (snd (capture_loop (Suc n) g overlap offset previous st)) =
        requested_offsets st @ map (\<lambda>k. offset + int k * ?s) [0..<Suc m]"
      by (simp only: upt_shift) simp
    then show ?thesis by blast
  qed
qed

lemma startCapture_steps:
  "\<exists>m. requested_offsets (snd (startCapture g overlap maxHeight n w)) =
     map (\<lambda>k. int k * (sg_clientHeight g - overlap)) [0..<m]"
  using capture_loop_steps [of n g overlap 0 None
      "\<lparr>requested_offsets = [], settled_offsets = [], composite = beginSession maxHeight w\<rparr>"]
  by (simp add: startCapture_def)


lemma scenario_capture:
  assumes "2000 \<le> maxHeight"
  shows "startCapture \<lparr>sg_scrollHeight = 2000, sg_clientHeight = 800\<rparr> 75 maxHeight
           (Suc (Suc (Suc (Suc k)))) w =
         (CaptureComplete,
          \<lparr>requested_offsets = [0, 725, 1450], settled_offsets = [0, 725, 1200],
           composite =
             \<lparr>cb_height = 2000, cb_ceiling = maxHeight, cb_width = w,
              cb_previous = Some \<lparr>frame_offset = 1200, frame_height = 800\<rparr>\<rparr>\<rparr>)"
  using assms
  by (simp add: startCapture_def beginSession_def scrollTo_def appendFrame_def
        overlap_rows_def Let_def)

text \<open>
  Claim C3. The offsets the loop asks for are the multiples of the visible height less
  the overlap; and for a target with \<open>scrollHeight\<close> 2000, \<open>clientHeight\<close> 800 and
  overlap 75, under a ceiling of at least 2000 and with at least four attempts, the
  frames are asked for at 0, 725 and 1450, the last settling at 1200, the end of
  content, and the composite has height exactly 2000.
\<close>

theorem scroll_step_scenario:
  assumes "2000 \<le> maxHeight" and "4 \<le> n"
  shows
   "requested_offsets
      (snd (startCapture \<lparr>sg_scrollHeight = 2000, sg_clientHeight = 800\<rparr> 75 maxHeight n w))
      = [0, 725, 1450]
    \<and> settled_offsets
      (snd (startCapture \<lparr>sg_scrollHeight = 2000, sg_clientHeight = 800\<rparr> 75 maxHeight n w))
      = [0, 725, 1200]
    \<and> finish (composite
      (snd (startCapture \<lparr>sg_scrollHeight = 2000, sg_clientHeight = 800\<rparr> 75 maxHeight n w)))
      = 2000
    \<and> fst (startCapture \<lparr>sg_scrollHeight = 2000, sg_clientHeight = 800\<rparr> 75 maxHeight n w)
      = CaptureComplete
    \<and> (\<exists>m. requested_offsets (snd (startCapture g overlap maxHeight n w)) =
          map (\<lambda>k. int k * (sg_clientHeight g - overlap)) [0..<m])"
proof -
  from assms(2) have "n = Suc (Suc (Suc (Suc (n - 4))))" by arith
  with scenario_capture [OF assms(1), of "n - 4" w]
  have "startCapture \<lparr>sg_scrollHeight = 2000, sg_clientHeight = 800\<rparr> 75 maxHeight n w =
         (CaptureComplete,
          \<lparr>requested_offsets = [0, 725, 1450], settled_offsets = [0, 725, 1200],
           composite =
             \<lparr>cb_height = 2000, cb_ceiling = maxHeight, cb_width = w,
              cb_previous = Some \<lparr>frame_offset = 1200, frame_height = 800\<rparr>\<rparr>\<rparr>)"
    by simp
  with startCapture_steps [of g overlap maxHeight n w]
  show ?thesis by (simp add: finish_def)
qed

theorem scroll_step_scenario_witness:
  "(2000::int) \<le> 32000 \<and> (4::nat) \<le> 100
   \<and> requested_offsets
      (snd (startCapture \<lparr>sg_scrollHeight = 2000, sg_clientHeight = 800\<rparr> 75 32000 100 1280))
      = [0, 725, 1450]
   \<and> finish (composite
      (snd (startCapture \<lparr>sg_scrollHeight = 2000, sg_clientHeight = 800\<rparr> 75 32000 100 1280)))
      = 2000"
proof -
  have ceiling: "(2000::int) \<le> 32000" and attempts: "(4::nat) \<le> 100" by simp_all
  from scroll_step_scenario [OF ceiling attempts, of 1280] ceiling attempts
  show ?thesis by blast
qed

end
